theory Spec2Isabelle
  imports Main "HOL-Library.List_Lexorder"
begin

section \<open>Python values\<close>

text \<open>
  A Python \<open>str\<close> is a sequence of Unicode code points; \<open>len\<close> counts code points.
  The sources compare summary lengths against a threshold and replace full-width
  punctuation, so a string is modelled as a list of code points. \<open>ustr\<close> embeds an ASCII
  literal.
\<close>

type_synonym ustring = "nat list"

definition ustr :: "string \<Rightarrow> ustring" where
  "ustr s = map of_char s"

text \<open>The exceptions the modelled code can raise.\<close>

datatype py_error =
  IndexError | KeyError | ValueError | JSONDecodeError | TypeError | AttributeError

text \<open>\<open>"sep".join(parts)\<close> on a list of strings.\<close>

fun str_join :: "ustring \<Rightarrow> ustring list \<Rightarrow> ustring" where
  "str_join sep [] = []"
| "str_join sep [x] = x"
| "str_join sep (x # y # ys) = x @ sep @ str_join sep (y # ys)"

text \<open>
  \<open>s.replace(old, new)\<close>: every non-overlapping occurrence, left to right. With an empty
  \<open>old\<close> Python inserts \<open>new\<close> before every character and at the end.
\<close>

fun replace_ne :: "ustring \<Rightarrow> ustring \<Rightarrow> ustring \<Rightarrow> ustring" where
  "replace_ne old new [] = []"
| "replace_ne old new (c # cs) =
     (if take (length old) (c # cs) = old
      then new @ replace_ne old new (drop (length old - 1) cs)
      else c # replace_ne old new cs)"

definition str_replace :: "ustring \<Rightarrow> ustring \<Rightarrow> ustring \<Rightarrow> ustring" where
  "str_replace old new s =
     (if old = [] then new @ concat (map (\<lambda>c. c # new) s) else replace_ne old new s)"

text \<open>\<open>s.split(c)\<close> for a one-character separator.\<close>

fun str_split :: "nat \<Rightarrow> ustring \<Rightarrow> ustring list" where
  "str_split c [] = [[]]"
| "str_split c (x # xs) =
     (if x = c then [] # str_split c xs
      else (case str_split c xs of [] \<Rightarrow> [[x]] | p # ps \<Rightarrow> (x # p) # ps))"

definition startswith :: "ustring \<Rightarrow> ustring \<Rightarrow> bool" where
  "startswith s p = (take (length p) s = p)"

definition endswith :: "ustring \<Rightarrow> ustring \<Rightarrow> bool" where
  "endswith s p = (length p \<le> length s \<and> drop (length s - length p) s = p)"

text \<open>\<open>s.find(c)\<close> and \<open>s.rfind(c)\<close> for one character: the index, or \<open>-1\<close>.\<close>

definition str_find :: "nat \<Rightarrow> ustring \<Rightarrow> int" where
  "str_find c s = (if c \<in> set s then int (length (takeWhile (\<lambda>x. x \<noteq> c) s)) else - 1)"

definition str_rfind :: "nat \<Rightarrow> ustring \<Rightarrow> int" where
  "str_rfind c s =
     (if c \<in> set s
      then int (length s) - 1 - int (length (takeWhile (\<lambda>x. x \<noteq> c) (rev s)))
      else - 1)"

section \<open>Prompt composer (libs/prompt\_manager.py)\<close>

datatype PromptSection = PRE_PROMPT | BODY_PROMPT | USER_INPUT | POST_PROMPT

text \<open>Iteration order of \<open>for section in PromptSection\<close>.\<close>

definition all_sections :: "PromptSection list" where
  "all_sections = [PRE_PROMPT, BODY_PROMPT, USER_INPUT, POST_PROMPT]"

record PromptFragment =
  module_id :: ustring
  content :: ustring
  is_system :: bool

text \<open>
  \<open>_sections\<close> maps a section to a dictionary of fragments by module id (only looked up
  by key); \<open>_section_orders\<close> keeps the render order of the ids.
\<close>

record PromptManager =
  sections :: "PromptSection \<Rightarrow> (ustring \<rightharpoonup> PromptFragment)"
  section_orders :: "PromptSection \<Rightarrow> ustring list"

definition system_id :: ustring where
  "system_id = ustr ''system''"

text \<open>\<open>PromptManagerRebuild()\<close> with no file.\<close>

definition new_manager :: PromptManager where
  "new_manager = \<lparr> sections = (\<lambda>_. Map.empty), section_orders = (\<lambda>_. []) \<rparr>"

text \<open>
  \<open>load_init_sections\<close>: \<open>init_contents\<close> is a dictionary, iterated as a list of
  (section, content) pairs. Every \<open>PromptSection\<close> is a key of \<open>_sections\<close>.
\<close>

fun load_init_sections :: "PromptManager \<Rightarrow> (PromptSection \<times> ustring) list \<Rightarrow> PromptManager" where
  "load_init_sections m [] = m"
| "load_init_sections m ((sec, c) # rest) =
     load_init_sections
       (m\<lparr> sections := (sections m)(sec := (sections m sec)(system_id \<mapsto>
              \<lparr> module_id = system_id, content = c, is_system = True \<rparr>)),
           section_orders := (section_orders m)(sec := [system_id]) \<rparr>)
       rest"








definition get_section_fragments :: "PromptManager \<Rightarrow> PromptSection \<Rightarrow> PromptFragment list" where
  "get_section_fragments m sec = List.map_filter (sections m sec) (section_orders m sec)"

definition get_section_content :: "PromptManager \<Rightarrow> PromptSection \<Rightarrow> ustring" where
  "get_section_content m sec =
     str_join (ustr ''\<newline>'') (map content (List.map_filter (sections m sec) (section_orders m sec)))"

text \<open>
  \<open>get_full_prompt\<close>: \<open>extra_prompts\<close> is \<open>None\<close> or a dictionary whose values may be
  \<open>None\<close>. A dictionary that has the key \<open>section\<close> is not empty, so the truthiness test
  of \<open>extra_prompts\<close> only excludes \<open>None\<close> (and the empty dictionary, which has no key).
\<close>

type_synonym extra_prompts = "(PromptSection \<rightharpoonup> ustring option) option"

definition extra_part :: "extra_prompts \<Rightarrow> PromptSection \<Rightarrow> ustring list" where
  "extra_part extra sec =
     (case extra of
        None \<Rightarrow> []
      | Some d \<Rightarrow> (case d sec of Some (Some v) \<Rightarrow> [v] | _ \<Rightarrow> []))"

fun full_prompt_parts :: "PromptManager \<Rightarrow> extra_prompts \<Rightarrow> PromptSection list \<Rightarrow> ustring list" where
  "full_prompt_parts m extra [] = []"
| "full_prompt_parts m extra (sec # rest) =
     (let section_content = get_section_content m sec
      in (if section_content \<noteq> [] then [section_content] else [])
         @ extra_part extra sec
         @ full_prompt_parts m extra rest)"

definition get_full_prompt :: "PromptManager \<Rightarrow> extra_prompts \<Rightarrow> ustring" where
  "get_full_prompt m extra = str_join (ustr ''\<newline>'') (full_prompt_parts m extra all_sections)"










section \<open>JSON values and the JSON library\<close>

text \<open>
  What \<open>json.loads\<close> returns. Numbers are kept as integers: the engine only tests a
  number's type and truthiness. An object keeps its items as an association list.
\<close>

datatype json =
  JNull | JBool bool | JNum int | JStr ustring | JArr "json list" | JObj "(ustring \<times> json) list"

text \<open>
  \<open>json_repair.repair_json\<close> and \<open>json.loads\<close> are library code outside the repository;
  they are parameters of the model. \<open>repair_loads x\<close> stands for
  \<open>json.loads(repair_json(x))\<close> (the argument may be \<open>None\<close>), \<open>loads x\<close> for
  \<open>json.loads(x)\<close>; each returns a value or the exception raised.
\<close>

record json_lib =
  repair_loads :: "ustring option \<Rightarrow> py_error + json"
  loads :: "ustring \<Rightarrow> py_error + json"

text \<open>Truthiness (\<open>if x\<close>, \<open>x and ...\<close>) and \<open>len(x)\<close> of a decoded value.\<close>

fun truthy :: "json \<Rightarrow> bool" where
  "truthy JNull = False"
| "truthy (JBool b) = b"
| "truthy (JNum n) = (n \<noteq> 0)"
| "truthy (JStr s) = (s \<noteq> [])"
| "truthy (JArr xs) = (xs \<noteq> [])"
| "truthy (JObj kvs) = (kvs \<noteq> [])"

fun py_len :: "json \<Rightarrow> py_error + nat" where
  "py_len (JStr s) = Inr (length s)"
| "py_len (JArr xs) = Inr (length xs)"
| "py_len (JObj kvs) = Inr (length kvs)"
| "py_len JNull = Inl TypeError"
| "py_len (JBool b) = Inl TypeError"
| "py_len (JNum n) = Inl TypeError"

text \<open>\<open>"sep".join(xs)\<close> raises \<open>TypeError\<close> unless every item is a string.\<close>

fun strs_of :: "json list \<Rightarrow> py_error + ustring list" where
  "strs_of [] = Inr []"
| "strs_of (JStr s # js) = (case strs_of js of Inl e \<Rightarrow> Inl e | Inr ss \<Rightarrow> Inr (s # ss))"
| "strs_of (_ # js) = Inl TypeError"

definition join_json :: "ustring \<Rightarrow> json list \<Rightarrow> py_error + ustring" where
  "join_json sep js = (case strs_of js of Inl e \<Rightarrow> Inl e | Inr ss \<Rightarrow> Inr (str_join sep ss))"

text \<open>
  \<open>[i for i in xs if i and P(len(i))]\<close>: a truthy item without a length (a number,
  \<open>True\<close>) raises \<open>TypeError\<close>.
\<close>

fun filter_len :: "(nat \<Rightarrow> bool) \<Rightarrow> json list \<Rightarrow> py_error + json list" where
  "filter_len P [] = Inr []"
| "filter_len P (i # rest) =
     (if \<not> truthy i then filter_len P rest
      else case py_len i of
        Inl e \<Rightarrow> Inl e
      | Inr n \<Rightarrow> (case filter_len P rest of
                    Inl e \<Rightarrow> Inl e
                  | Inr r \<Rightarrow> Inr (if P n then i # r else r)))"

text \<open>\<open>any(i and len(i) < m for i in xs)\<close>, left to right, stopping at the first hit.\<close>

fun any_small :: "int \<Rightarrow> json list \<Rightarrow> py_error + bool" where
  "any_small m [] = Inr False"
| "any_small m (i # rest) =
     (if \<not> truthy i then any_small m rest
      else case py_len i of
        Inl e \<Rightarrow> Inl e
      | Inr n \<Rightarrow> (if int n < m then Inr True else any_small m rest))"

section \<open>Game engine (game\_engine.py)\<close>

text \<open>
  The fields of \<open>CustomConfig\<close> the engine reads (the class itself is outside the
  sources), and the engine's state. Presentation (animation, prints, key presses) and
  the message queue are left out; a key press awaited by \<open>input\<close> is taken as given.
\<close>

record CustomConfig =
  max_tokens :: int
  cfg_player_name :: ustring
  player_story :: ustring
  custom_pre :: ustring
  custom_body :: ustring
  custom_post :: ustring

datatype role = User | Assistant

record GameEngine =
  pm_start :: PromptManager
  pm_continue :: PromptManager
  pm_summary :: PromptManager
  current_response :: "ustring option"
  conversation_history :: "(role \<times> ustring option) list"
  history_descriptions :: "ustring list"
  history_choices :: "ustring list"
  history_simple_summaries :: "json list"
  current_description :: ustring
  summary_conclude_val :: int
  conclude_summary_cooldown :: int
  compressed_summary_textmin :: int
  total_prompt_tokens :: int
  l_p_token :: int
  total_completion_tokens :: int
  l_c_token :: int
  total_tokens :: int
  token_consumes :: "int list"
  custom_config :: CustomConfig
  player_name :: ustring

text \<open>\<open>GameEngine.__init__\<close>; the three prompt templates are read from files.\<close>

definition new_engine ::
  "PromptManager \<Rightarrow> PromptManager \<Rightarrow> PromptManager \<Rightarrow> CustomConfig \<Rightarrow> GameEngine" where
  "new_engine start continue summary cfg =
     \<lparr> pm_start = start, pm_continue = continue, pm_summary = summary,
       current_response = Some [],
       conversation_history = [],
       history_descriptions = [],
       history_choices = [],
       history_simple_summaries = [],
       current_description = [28216, 25103, 24320, 22987],
       summary_conclude_val = 24,
       conclude_summary_cooldown = 10,
       compressed_summary_textmin = 320,
       total_prompt_tokens = 0, l_p_token = 0, total_completion_tokens = 0, l_c_token = 0,
       total_tokens = 0,
       token_consumes = [],
       custom_config = cfg,
       player_name = cfg_player_name cfg \<rparr>"

subsection \<open>Calling the model\<close>

text \<open>
  One answer of the language-model client: a timeout, another client error, or a
  response with optional usage counts (prompt, completion, total), the message content
  and the reasoning content. The answers of successive calls are a script, consumed one
  per call; a call made when the script is used up never returns (\<open>None\<close> as the
  result of the enclosing operation).
\<close>

datatype api_result =
  APITimeoutError
| OpenAIError
| Response "(int \<times> int \<times> int) option" "ustring option" "ustring option"

text \<open>
  The text from the first \<open>{\<close> to the last \<open>}\<close>, when both exist in that order
  (code points 123 and 125).
\<close>

definition extract_braces :: "ustring \<Rightarrow> ustring option" where
  "extract_braces s =
     (let start_idx = str_find 123 s; end_idx = str_rfind 125 s
      in if start_idx \<noteq> - 1 \<and> end_idx \<noteq> - 1 \<and> end_idx > start_idx
         then Some (drop (nat start_idx) (take (nat (end_idx + 1)) s))
         else None)"

definition truthy_str :: "ustring option \<Rightarrow> bool" where
  "truthy_str x = (case x of None \<Rightarrow> False | Some t \<Rightarrow> t \<noteq> [])"

definition record_usage :: "GameEngine \<Rightarrow> (int \<times> int \<times> int) option \<Rightarrow> GameEngine" where
  "record_usage s usage =
     (case usage of
        None \<Rightarrow> s
      | Some (p, c, t) \<Rightarrow>
          s\<lparr> total_prompt_tokens := total_prompt_tokens s + p,
             l_p_token := p,
             total_completion_tokens := total_completion_tokens s + c,
             l_c_token := c,
             total_tokens := total_tokens s + t \<rparr>)"

definition call_ai :: "GameEngine \<Rightarrow> ustring \<Rightarrow> api_result \<Rightarrow> ustring option \<times> GameEngine" where
  "call_ai s prompt r =
     (case r of
        APITimeoutError \<Rightarrow> (None, s)
      | OpenAIError \<Rightarrow> (None, s)
      | Response usage message_content reasoning_content \<Rightarrow>
          (let s1 = record_usage s usage;
               s2 = s1\<lparr> current_response := message_content,
                        conversation_history :=
                          conversation_history s1 @ [(User, Some prompt), (Assistant, message_content)] \<rparr>
           in if truthy_str message_content then (message_content, s2)
              else (let s3 = s2\<lparr> current_response := reasoning_content \<rparr>
                    in case reasoning_content of
                         None \<Rightarrow> (None, s3)
                       | Some rc \<Rightarrow>
                           (if rc = [] then (None, s3)
                            else (case extract_braces rc of
                                    Some j \<Rightarrow> (Some j, s3\<lparr> current_response := Some j \<rparr>)
                                  | None \<Rightarrow> (None, s3))))))"

subsection \<open>Parsing a response\<close>

text \<open>Characters \<open>str.strip()\<close> removes: those for which \<open>str.isspace\<close> holds.\<close>

definition py_isspace :: "nat \<Rightarrow> bool" where
  "py_isspace c =
     ((9 \<le> c \<and> c \<le> 13) \<or> (28 \<le> c \<and> c \<le> 32) \<or> c = 133 \<or> c = 160 \<or> c = 5760 \<or>
      (8192 \<le> c \<and> c \<le> 8202) \<or> c = 8232 \<or> c = 8233 \<or> c = 8239 \<or> c = 8287 \<or> c = 12288)"

definition str_strip :: "ustring \<Rightarrow> ustring" where
  "str_strip s = rev (dropWhile py_isspace (rev (dropWhile py_isspace s)))"

text \<open>
  \<open>re.sub("\<dots>(?!\<dots>)", \<dots>)\<close>: a newline after every ideographic full stop (12290)
  that is not followed by a closing white corner bracket (12303); then a newline after
  every such bracket.
\<close>

fun sub_full_stop :: "ustring \<Rightarrow> ustring" where
  "sub_full_stop [] = []"
| "sub_full_stop (c # cs) =
     (if c = 12290 \<and> (case cs of [] \<Rightarrow> True | d # _ \<Rightarrow> d \<noteq> 12303)
      then c # 10 # sub_full_stop cs
      else c # sub_full_stop cs)"

definition reflow :: "ustring \<Rightarrow> ustring" where
  "reflow d = str_replace [12303] [12303, 10] (sub_full_stop d)"

text \<open>Full-width quotes, colon and comma become their ASCII forms.\<close>

definition normalize_punctuation :: "ustring \<Rightarrow> ustring" where
  "normalize_punctuation response =
     str_replace [65292] [44]
       (str_replace [65306] [58]
          (str_replace [8221] [34]
             (str_replace [8220] [34] response)))"

text \<open>
  The loop \<open>while not isinstance(json_response, dict)\<close>: a list gives its first element
  (\<open>IndexError\<close> when empty), a string is decoded again, anything else ends the parse
  with \<open>False\<close> (\<open>Inr None\<close>). The loop need not end for an arbitrary decoder, so it is a
  partial function.
\<close>

partial_function (option) unwrap_dict ::
  "(ustring \<Rightarrow> py_error + json) \<Rightarrow> json \<Rightarrow> (py_error + (ustring \<times> json) list option) option" where
  "unwrap_dict decode j =
     (case j of
        JObj kvs \<Rightarrow> Some (Inr (Some kvs))
      | JArr xs \<Rightarrow> (case xs of [] \<Rightarrow> Some (Inl IndexError) | x # _ \<Rightarrow> unwrap_dict decode x)
      | JStr t \<Rightarrow> (case decode t of Inl e \<Rightarrow> Some (Inl e) | Inr j' \<Rightarrow> unwrap_dict decode j')
      | JNull \<Rightarrow> Some (Inr None)
      | JBool b \<Rightarrow> Some (Inr None)
      | JNum n \<Rightarrow> Some (Inr None))"

text \<open>The handler \<open>except (ValueError, json.JSONDecodeError)\<close>: \<open>False\<close>, state as it was.\<close>

definition parse_except :: "GameEngine \<Rightarrow> py_error \<Rightarrow> py_error + bool \<times> GameEngine" where
  "parse_except s e = (if e = ValueError \<or> e = JSONDecodeError then Inr (False, s) else Inl e)"

definition dict_get :: "(ustring \<times> json) list \<Rightarrow> ustring \<Rightarrow> json \<Rightarrow> json" where
  "dict_get kvs k dflt = (case map_of kvs k of None \<Rightarrow> dflt | Some v \<Rightarrow> v)"

text \<open>
  From \<open>json_response.get("description", "")\<close> on: \<open>.strip()\<close> of a value that is not a
  string raises \<open>AttributeError\<close>, which the handler does not catch.
\<close>

definition parse_fields ::
  "GameEngine \<Rightarrow> (ustring \<times> json) list \<Rightarrow> py_error + bool \<times> GameEngine" where
  "parse_fields s json_response =
     (case dict_get json_response (ustr ''description'') (JStr []) of
        JStr d \<Rightarrow>
          (let s1 = s\<lparr> current_description := d \<rparr>
           in if str_strip d = [] then Inr (False, s1)
              else (let s2 = s1\<lparr> current_description := reflow d \<rparr>
                    in if current_description s2 \<noteq> []
                       then Inr (True, s2\<lparr> history_simple_summaries :=
                                   history_simple_summaries s2
                                   @ [dict_get json_response (ustr ''summary'') (JStr [])] \<rparr>)
                       else Inr (True, s2)))
      | _ \<Rightarrow> Inl AttributeError)"

definition parse_ai_response ::
  "json_lib \<Rightarrow> GameEngine \<Rightarrow> ustring \<Rightarrow> (py_error + bool \<times> GameEngine) option" where
  "parse_ai_response lib s response0 =
     (let response = normalize_punctuation response0;
          json_content = (case extract_braces response of Some c \<Rightarrow> c | None \<Rightarrow> response)
      in case repair_loads lib (Some json_content) of
           Inl e \<Rightarrow> Some (parse_except s e)
         | Inr j \<Rightarrow>
             (case unwrap_dict (loads lib) j of
                None \<Rightarrow> None
              | Some (Inl e) \<Rightarrow> Some (parse_except s e)
              | Some (Inr None) \<Rightarrow> Some (Inr (False, s))
              | Some (Inr (Some json_response)) \<Rightarrow> Some (parse_fields s json_response)))"

subsection \<open>Turns\<close>

text \<open>The fixed texts of the f-strings, as code points.\<close>

definition txt_player_name :: ustring where
  "txt_player_name = [29609, 23478, 22995, 21517, 58, 32]"

definition txt_player_story :: ustring where
  "txt_player_story = [44, 29609, 23478, 32972, 26223, 58, 32]"

definition txt_open_with :: ustring where
  "txt_open_with = [20197]"

definition txt_random_scene :: ustring where
  "txt_random_scene = [19968, 20010, 23436, 20840, 38543, 26426, 30340, 22330, 26223]"

definition txt_as_opening :: ustring where
  "txt_as_opening =
     [20026, 25925, 20107, 24320, 22836, 65292, 24320, 22987, 26412, 23616, 27785, 28024,
      24335, 25991, 23383, 28216, 25103]"

definition txt_history_summary :: ustring where
  "txt_history_summary = [21382, 21490, 21095, 24773, 25688, 35201, 58, 32]"

definition player_intro :: "GameEngine \<Rightarrow> ustring" where
  "player_intro s =
     txt_player_name @ player_name s @ txt_player_story @ player_story (custom_config s)"

definition start_prompt :: "GameEngine \<Rightarrow> ustring \<Rightarrow> ustring" where
  "start_prompt s st_story =
     get_full_prompt (pm_start s)
       (Some [PRE_PROMPT \<mapsto> Some (player_intro s @ custom_pre (custom_config s)),
              BODY_PROMPT \<mapsto> Some (custom_body (custom_config s)),
              USER_INPUT \<mapsto> Some (txt_open_with
                                   @ (if st_story \<noteq> [] then st_story else txt_random_scene)
                                   @ txt_as_opening),
              POST_PROMPT \<mapsto> Some (custom_post (custom_config s))])"

text \<open>
  \<open>ai_response = call_ai(p)\<close> followed by \<open>while not ai_response: ai_response =
  call_ai(p)\<close>: the first answer with text.
\<close>

fun await_response ::
  "GameEngine \<Rightarrow> ustring \<Rightarrow> api_result list \<Rightarrow> (ustring \<times> GameEngine \<times> api_result list) option" where
  "await_response s p [] = None"
| "await_response s p (r # rs) =
     (case call_ai s p r of
        (None, s1) \<Rightarrow> await_response s1 p rs
      | (Some t, s1) \<Rightarrow> (if t \<noteq> [] then Some (t, s1, rs) else await_response s1 p rs))"

text \<open>
  \<open>while not ok_sign: ai_response = call_ai(p); if ai_response: ok_sign =
  parse_ai_response(ai_response)\<close>. An exception of the parser leaves the loop.
\<close>

fun parse_retry ::
  "json_lib \<Rightarrow> GameEngine \<Rightarrow> ustring \<Rightarrow> api_result list \<Rightarrow>
   (py_error + GameEngine \<times> api_result list) option" where
  "parse_retry lib s p [] = None"
| "parse_retry lib s p (r # rs) =
     (case call_ai s p r of
        (None, s1) \<Rightarrow> parse_retry lib s1 p rs
      | (Some t, s1) \<Rightarrow>
          (if t = [] then parse_retry lib s1 p rs
           else (case parse_ai_response lib s1 t of
                   None \<Rightarrow> None
                 | Some (Inl e) \<Rightarrow> Some (Inl e)
                 | Some (Inr (ok_sign, s2)) \<Rightarrow>
                     (if ok_sign then Some (Inr (s2, rs)) else parse_retry lib s2 p rs))))"

text \<open>\<open>ok_sign = parse_ai_response(ai_response)\<close> followed by the retry loop.\<close>

definition parse_or_retry ::
  "json_lib \<Rightarrow> GameEngine \<Rightarrow> ustring \<Rightarrow> ustring \<Rightarrow> api_result list \<Rightarrow>
   (py_error + GameEngine \<times> api_result list) option" where
  "parse_or_retry lib s p ai_response rs =
     (case parse_ai_response lib s ai_response of
        None \<Rightarrow> None
      | Some (Inl e) \<Rightarrow> Some (Inl e)
      | Some (Inr (ok_sign, s1)) \<Rightarrow>
          (if ok_sign then Some (Inr (s1, rs)) else parse_retry lib s1 p rs))"

definition start_game ::
  "json_lib \<Rightarrow> GameEngine \<Rightarrow> ustring \<Rightarrow> api_result list \<Rightarrow>
   (py_error + GameEngine \<times> api_result list) option" where
  "start_game lib s st_story rs =
     (let init_prompt = start_prompt s st_story
      in case await_response s init_prompt rs of
           None \<Rightarrow> None
         | Some (ai_response, s1, rs1) \<Rightarrow>
             (case parse_or_retry lib s1 init_prompt ai_response rs1 of
                None \<Rightarrow> None
              | Some (Inl e) \<Rightarrow> Some (Inl e)
              | Some (Inr (s2, rs2)) \<Rightarrow>
                  Some (Inr (s2\<lparr> history_descriptions :=
                                   history_descriptions s2 @ [current_description s2],
                                 token_consumes :=
                                   token_consumes s2 @ [l_p_token s2 + l_c_token s2] \<rparr>,
                             rs2))))"

subsection \<open>Compaction of the summaries\<close>

text \<open>
  \<open>phase_summary\<close>: \<open>json.loads(repair_json(resp))["summary"]\<close>. A decoding error or a
  missing key gives \<open>(0, "")\<close>; subscripting a value that is not an object raises
  \<open>TypeError\<close>, which is not caught.
\<close>

definition phase_summary :: "json_lib \<Rightarrow> ustring option \<Rightarrow> py_error + bool \<times> json" where
  "phase_summary lib resp =
     (case repair_loads lib resp of
        Inl e \<Rightarrow> (if e = JSONDecodeError \<or> e = KeyError \<or> e = ValueError
                  then Inr (False, JStr []) else Inl e)
      | Inr r \<Rightarrow>
          (case r of
             JObj kvs \<Rightarrow> (case map_of kvs (ustr ''summary'') of
                            None \<Rightarrow> Inr (False, JStr [])
                          | Some summ \<Rightarrow> Inr (True, summ))
           | _ \<Rightarrow> Inl TypeError))"

text \<open>
  \<open>ok_sign, summ = phase_summary(summary)\<close> followed by \<open>while not ok_sign: summary =
  call_ai(prompt); ok_sign, summ = phase_summary(summary)\<close>.
\<close>

fun summary_retry ::
  "json_lib \<Rightarrow> GameEngine \<Rightarrow> ustring \<Rightarrow> ustring option \<Rightarrow> api_result list \<Rightarrow>
   (py_error + json \<times> GameEngine \<times> api_result list) option" where
  "summary_retry lib s prompt summary rs =
     (case phase_summary lib summary of
        Inl e \<Rightarrow> Some (Inl e)
      | Inr (ok_sign, summ) \<Rightarrow>
          (if ok_sign then Some (Inr (summ, s, rs))
           else (case rs of
                   [] \<Rightarrow> None
                 | r # rs1 \<Rightarrow> (case call_ai s prompt r of
                                (summary1, s1) \<Rightarrow> summary_retry lib s1 prompt summary1 rs1))))"

text \<open>\<open>self.token_consumes[-1] += n\<close>: \<open>IndexError\<close> on an empty list.\<close>

definition add_to_last :: "int list \<Rightarrow> int \<Rightarrow> py_error + int list" where
  "add_to_last xs n = (if xs = [] then Inl IndexError else Inr (butlast xs @ [last xs + n]))"

text \<open>
  The call with \<open>max_tokens\<close> overridden and restored, the retry loop, and the
  bookkeeping shared by both strategies; \<open>rebuild\<close> computes the new list of summaries
  from the new summary and the engine as the calls left it.
\<close>

definition summarize ::
  "json_lib \<Rightarrow> GameEngine \<Rightarrow> ustring \<Rightarrow> int \<Rightarrow> (json \<Rightarrow> GameEngine \<Rightarrow> py_error + json list) \<Rightarrow>
   api_result list \<Rightarrow> (py_error + GameEngine \<times> api_result list) option" where
  "summarize lib s prompt budget rebuild rs =
     (case rs of
        [] \<Rightarrow> None
      | r # rs1 \<Rightarrow>
          (let tmp = max_tokens (custom_config s);
               s0 = s\<lparr> custom_config := (custom_config s)\<lparr> max_tokens := budget \<rparr> \<rparr>
           in case call_ai s0 prompt r of
                (summary, s1) \<Rightarrow>
                  (let s2 = s1\<lparr> custom_config := (custom_config s1)\<lparr> max_tokens := tmp \<rparr> \<rparr>
                   in case summary_retry lib s2 prompt summary rs1 of
                        None \<Rightarrow> None
                      | Some (Inl e) \<Rightarrow> Some (Inl e)
                      | Some (Inr (summ, s3, rs3)) \<Rightarrow>
                          (case rebuild summ s3 of
                             Inl e \<Rightarrow> Some (Inl e)
                           | Inr summaries \<Rightarrow>
                               (case add_to_last (token_consumes s3)
                                       (l_p_token s3 + l_c_token s3) of
                                  Inl e \<Rightarrow> Some (Inl e)
                                | Inr consumes \<Rightarrow>
                                    Some (Inr (s3\<lparr> history_simple_summaries := summaries,
                                                    conclude_summary_cooldown := 10,
                                                    token_consumes := consumes \<rparr>,
                                               rs3)))))))"

text \<open>
  Dilution: the prompt is built from the truthy summaries except the last ten; the new
  summary replaces the first ten entries.
\<close>

definition dilution ::
  "json_lib \<Rightarrow> GameEngine \<Rightarrow> api_result list \<Rightarrow> (py_error + GameEngine \<times> api_result list) option" where
  "dilution lib s rs =
     (let summaries = history_simple_summaries s
      in case join_json (ustr ''\<newline>'')
                (filter truthy (take (length summaries - 10) summaries)) of
           Inl e \<Rightarrow> Some (Inl e)
         | Inr joined \<Rightarrow>
             summarize lib s
               (get_full_prompt (pm_summary s)
                  (Some [PRE_PROMPT \<mapsto> Some (player_intro s),
                         USER_INPUT \<mapsto> Some (txt_history_summary @ joined)]))
               20480
               (\<lambda>summ s3. Inr (summ # drop 10 (history_simple_summaries s3)))
               rs)"

text \<open>
  Compression: the prompt is built from the truthy summaries shorter than
  \<open>compressed_summary_textmin\<close>; the new summary follows the truthy summaries of at
  least that length.
\<close>

definition compression ::
  "json_lib \<Rightarrow> GameEngine \<Rightarrow> api_result list \<Rightarrow> (py_error + GameEngine \<times> api_result list) option" where
  "compression lib s rs =
     (case filter_len (\<lambda>n. int n < compressed_summary_textmin s) (history_simple_summaries s) of
        Inl e \<Rightarrow> Some (Inl e)
      | Inr small \<Rightarrow>
          (case join_json (ustr ''\<newline>'') small of
             Inl e \<Rightarrow> Some (Inl e)
           | Inr joined \<Rightarrow>
               summarize lib s
                 (get_full_prompt (pm_summary s)
                    (Some [PRE_PROMPT \<mapsto> Some (txt_player_name @ player_name s),
                           USER_INPUT \<mapsto> Some (txt_history_summary @ joined)]))
                 2048
                 (\<lambda>summ s3.
                    case filter_len (\<lambda>n. int n \<ge> compressed_summary_textmin s3)
                           (history_simple_summaries s3) of
                      Inl e \<Rightarrow> Inl e
                    | Inr large \<Rightarrow> Inr (large @ [summ]))
                 rs))"

text \<open>
  The test that picks the strategy: \<open>not any(i and len(i) < textmin for i in
  summaries[:-1])\<close>.
\<close>

datatype strategy = Dilution | Compression

definition select_strategy :: "GameEngine \<Rightarrow> py_error + strategy" where
  "select_strategy s =
     (case any_small (compressed_summary_textmin s) (butlast (history_simple_summaries s)) of
        Inl e \<Rightarrow> Inl e
      | Inr small_exists \<Rightarrow> Inr (if \<not> small_exists then Dilution else Compression))"

definition conclude_summary ::
  "json_lib \<Rightarrow> GameEngine \<Rightarrow> api_result list \<Rightarrow> (py_error + GameEngine \<times> api_result list) option" where
  "conclude_summary lib s rs =
     (case select_strategy s of
        Inl e \<Rightarrow> Some (Inl e)
      | Inr Dilution \<Rightarrow> dilution lib s rs
      | Inr Compression \<Rightarrow> compression lib s rs)"

subsection \<open>Continuation turns\<close>

definition go_prompt :: "GameEngine \<Rightarrow> ustring \<Rightarrow> py_error + ustring" where
  "go_prompt s user_ipt =
     (if user_ipt \<noteq> [] then
        (if history_simple_summaries s = [] then Inl IndexError
         else case last (history_simple_summaries s) of
           JStr history_story \<Rightarrow>
             Inr (str_replace (ustr ''{player_action}'') user_ipt
                   (str_replace (ustr ''{current_scene}'') (current_description s)
                     (str_replace (ustr ''{history_story}'') history_story
                       (get_full_prompt (pm_continue s)
                          (Some [PRE_PROMPT \<mapsto> Some (player_intro s @ custom_pre (custom_config s)),
                                 BODY_PROMPT \<mapsto> Some (custom_body (custom_config s)),
                                 POST_PROMPT \<mapsto> Some (custom_post (custom_config s))])))))
         | _ \<Rightarrow> Inl TypeError)
      else Inr [])"

text \<open>The commit at the end of \<open>go_game\<close>.\<close>

definition go_commit :: "GameEngine \<Rightarrow> ustring \<Rightarrow> GameEngine" where
  "go_commit s user_ipt =
     s\<lparr> token_consumes := token_consumes s @ [l_p_token s + l_c_token s],
        conclude_summary_cooldown := conclude_summary_cooldown s - 1,
        history_descriptions := history_descriptions s @ [current_description s],
        history_choices := history_choices s @ [user_ipt] \<rparr>"

text \<open>\<open>go_game\<close> from the prompt on, for a call that is not concluding.\<close>

definition go_turn ::
  "json_lib \<Rightarrow> GameEngine \<Rightarrow> ustring \<Rightarrow> api_result list \<Rightarrow>
   (py_error + GameEngine \<times> api_result list) option" where
  "go_turn lib s user_ipt rs =
     (case go_prompt s user_ipt of
        Inl e \<Rightarrow> Some (Inl e)
      | Inr prompt \<Rightarrow>
          (if prompt = [] then Some (Inl ValueError)
           else (case rs of
                   [] \<Rightarrow> None
                 | r # rs1 \<Rightarrow>
                     (case call_ai s prompt r of
                        (ai_response, s1) \<Rightarrow>
                          (case (case ai_response of
                                   None \<Rightarrow> Some (Inr (s1, rs1))
                                 | Some t \<Rightarrow>
                                     (if t \<noteq> [] then parse_or_retry lib s1 prompt t rs1
                                      else Some (Inr (s1, rs1)))) of
                             None \<Rightarrow> None
                           | Some (Inl e) \<Rightarrow> Some (Inl e)
                           | Some (Inr (s2, rs2)) \<Rightarrow> Some (Inr (go_commit s2 user_ipt, rs2)))))))"

definition compaction_due :: "GameEngine \<Rightarrow> bool" where
  "compaction_due s =
     (int (length (history_simple_summaries s)) > summary_conclude_val s \<and>
      conclude_summary_cooldown s < 1)"

function go_game ::
  "json_lib \<Rightarrow> GameEngine \<Rightarrow> ustring \<Rightarrow> bool \<Rightarrow> api_result list \<Rightarrow>
   (py_error + GameEngine \<times> api_result list) option" where
  "go_game lib s user_ipt is_prompt_concluding rs =
     (case (if int (length (history_simple_summaries s)) > summary_conclude_val s
               \<and> \<not> is_prompt_concluding \<and> conclude_summary_cooldown s < 1
            then go_game lib s user_ipt True rs
            else Some (Inr (s, rs))) of
        None \<Rightarrow> None
      | Some (Inl e) \<Rightarrow> Some (Inl e)
      | Some (Inr (s1, rs1)) \<Rightarrow>
          (if is_prompt_concluding then conclude_summary lib s1 rs1
           else go_turn lib s1 user_ipt rs1))"
  by pat_completeness auto
termination
  by (relation "measure (\<lambda>(lib, s, user_ipt, is_prompt_concluding, rs).
                  if is_prompt_concluding then 0 else 1)") auto

subsection \<open>A session\<close>

text \<open>
  The main loop (\<open>new_game\<close> in main.py) opens with \<open>start_game\<close> and then calls
  \<open>go_game(action)\<close> for each non-blank action. \<open>play_turns\<close> runs the continuation
  turns and returns the engine after each of them.
\<close>

fun play_turns ::
  "json_lib \<Rightarrow> GameEngine \<Rightarrow> ustring list \<Rightarrow> api_result list \<Rightarrow>
   (py_error + GameEngine list \<times> api_result list) option" where
  "play_turns lib s [] rs = Some (Inr ([], rs))"
| "play_turns lib s (action # actions) rs =
     (case go_game lib s action False rs of
        None \<Rightarrow> None
      | Some (Inl e) \<Rightarrow> Some (Inl e)
      | Some (Inr (s1, rs1)) \<Rightarrow>
          (case play_turns lib s1 actions rs1 of
             None \<Rightarrow> None
           | Some (Inl e) \<Rightarrow> Some (Inl e)
           | Some (Inr (states, rs2)) \<Rightarrow> Some (Inr (s1 # states, rs2))))"

section \<open>Save files (main.py)\<close>

text \<open>
  A game's save directory is the list of its file names, in the order \<open>os.listdir\<close>
  returns them. \<open>str.isdigit\<close> depends on the Unicode tables of the Python runtime; the
  per-character test is a parameter.
\<close>

definition str_isdigit :: "(nat \<Rightarrow> bool) \<Rightarrow> ustring \<Rightarrow> bool" where
  "str_isdigit isdigit s = (s \<noteq> [] \<and> list_all isdigit s)"

text \<open>The filter of \<open>manage_auto_saves\<close> over the directory listing.\<close>

definition is_auto_save :: "ustring \<Rightarrow> ustring \<Rightarrow> bool" where
  "is_auto_save save_name f =
     (startswith f save_name \<and>
      \<not> startswith f (ustr ''manual_'') \<and>
      \<not> endswith f (ustr ''_latest.json'') \<and>
      \<not> endswith f (ustr ''_latest.json.gz'') \<and>
      (endswith f (ustr ''.json'') \<or> endswith f (ustr ''.json.gz'')))"

text \<open>
  \<open>get_file_timestamp\<close>: the first part, split at underscores, of length 15 whose first
  eight and last six characters are digits; the file name itself when there is none.
\<close>

definition get_file_timestamp :: "(nat \<Rightarrow> bool) \<Rightarrow> ustring \<Rightarrow> ustring" where
  "get_file_timestamp isdigit filename =
     (let parts = str_split 95
                    (str_replace (ustr ''.gz'') []
                       (str_replace (ustr ''.json'') [] filename))
      in case find (\<lambda>part. length part = 15 \<and> str_isdigit isdigit (take 8 part)
                              \<and> str_isdigit isdigit (drop 9 part)) parts of
           Some part \<Rightarrow> part
         | None \<Rightarrow> filename)"

text \<open>
  \<open>manage_auto_saves\<close> returns the directory as the deletions leave it. Python's sort is
  stable and compares the keys as strings, code point by code point.
\<close>

definition manage_auto_saves :: "(nat \<Rightarrow> bool) \<Rightarrow> ustring list \<Rightarrow> ustring \<Rightarrow> ustring list" where
  "manage_auto_saves isdigit files save_name =
     (let auto_save_files = filter (is_auto_save save_name) files
      in if length auto_save_files > 5
         then (let sorted_files = sort_key (get_file_timestamp isdigit) auto_save_files;
                   files_to_delete = take (length sorted_files - 5) sorted_files
               in filter (\<lambda>f. f \<notin> set files_to_delete) files)
         else files)"

text \<open>
  The files \<open>save_game\<close> writes, with \<open>timestamp\<close> the result of
  \<open>strftime("%Y%m%d_%H%M%S")\<close>: the record, the latest pointer, and for an autosave the
  retention pass. Writing an existing name overwrites it.
\<close>

definition save_file_name :: "ustring \<Rightarrow> ustring \<Rightarrow> bool \<Rightarrow> ustring" where
  "save_file_name save_name timestamp is_manual_save =
     (if is_manual_save
      then ustr ''manual_'' @ save_name @ ustr ''_'' @ timestamp @ ustr ''.json.gz''
      else save_name @ ustr ''_'' @ timestamp @ ustr ''.json.gz'')"

definition write_file :: "ustring \<Rightarrow> ustring list \<Rightarrow> ustring list" where
  "write_file f files = (if f \<in> set files then files else files @ [f])"

definition save_game_files ::
  "(nat \<Rightarrow> bool) \<Rightarrow> ustring list \<Rightarrow> ustring \<Rightarrow> ustring \<Rightarrow> bool \<Rightarrow> ustring list" where
  "save_game_files isdigit files save_name timestamp is_manual_save =
     (let files1 = write_file (save_file_name save_name timestamp is_manual_save) files;
          files2 = write_file (save_name @ ustr ''_latest.json.gz'') files1
      in if \<not> is_manual_save then manage_auto_saves isdigit files2 save_name else files2)"

subsection \<open>Properties of the composer\<close>





definition section_inv :: "PromptManager \<Rightarrow> PromptSection \<Rightarrow> bool" where
  "section_inv m sec =
     ((\<forall>mid f. sections m sec mid = Some f \<longrightarrow> is_system f \<longrightarrow> mid = system_id) \<and>
      system_id \<notin> set (tl (section_orders m sec)))"



definition override_gap ::
  "PromptManager \<Rightarrow> (PromptSection \<rightharpoonup> ustring option) \<Rightarrow> PromptSection \<Rightarrow> nat \<Rightarrow>
   PromptSection list \<Rightarrow> bool" where
  "override_gap m d sec c secs =
    (length (full_prompt_parts m (Some (d(sec \<mapsto> Some []))) secs)
       = Suc (length (full_prompt_parts m (Some (d(sec := None))) secs)) \<and>
     sum_list (map length (full_prompt_parts m (Some (d(sec \<mapsto> Some []))) secs))
       = sum_list (map length (full_prompt_parts m (Some (d(sec := None))) secs)) \<and>
     sum_list (map (\<lambda>x. count_list x c) (full_prompt_parts m (Some (d(sec \<mapsto> Some []))) secs))
       = sum_list (map (\<lambda>x. count_list x c) (full_prompt_parts m (Some (d(sec := None))) secs)))"


subsection \<open>Properties of the engine\<close>

text \<open>Fields that calls to the model and parsing leave alone.\<close>

definition histories_kept :: "GameEngine \<Rightarrow> GameEngine \<Rightarrow> bool" where
  "histories_kept s s' =
     (history_descriptions s' = history_descriptions s \<and>
      history_choices s' = history_choices s)"

definition compaction_frame :: "GameEngine \<Rightarrow> GameEngine \<Rightarrow> bool" where
  "compaction_frame s s' =
     (history_simple_summaries s' = history_simple_summaries s \<and>
      compressed_summary_textmin s' = compressed_summary_textmin s \<and>
      summary_conclude_val s' = summary_conclude_val s)"

text \<open>\<open>len(historyDescriptions) == len(historyChoices) + 1\<close>.\<close>

definition history_aligned :: "GameEngine \<Rightarrow> bool" where
  "history_aligned s = (length (history_descriptions s) = length (history_choices s) + 1)"

subsection \<open>Example inputs\<close>

text \<open>
  A decoder that knows a few response texts, a configuration, a fresh engine with empty
  templates, and the engine after an opening turn. A summary of 320 characters is large.
\<close>

definition demo_lib :: json_lib where
  "demo_lib =
     \<lparr> repair_loads = (\<lambda>x.
         case x of
           None \<Rightarrow> Inl TypeError
         | Some t \<Rightarrow>
             if t = ustr ''{\"description\": \"You wake up.\", \"summary\": \"woke\"}''
             then Inr (JObj [(ustr ''description'', JStr (ustr ''You wake up.'')),
                             (ustr ''summary'', JStr (ustr ''woke''))])
             else if t = ustr ''{\"description\": \"The door opens.\", \"summary\": \"door\"}''
             then Inr (JObj [(ustr ''description'', JStr (ustr ''The door opens.'')),
                             (ustr ''summary'', JStr (ustr ''door''))])
             else if t = ustr ''{\"description\": \" \"}''
             then Inr (JObj [(ustr ''description'', JStr (ustr '' ''))])
             else if t = ustr ''{\"summary\": \"digest\"}''
             then Inr (JObj [(ustr ''summary'', JStr (ustr ''digest''))])
             else if t = ustr ''[]'' then Inr (JArr [])
             else Inl JSONDecodeError),
       loads = (\<lambda>t. Inl JSONDecodeError) \<rparr>"

definition demo_config :: CustomConfig where
  "demo_config =
     \<lparr> max_tokens = 1024, cfg_player_name = ustr ''Ann'', player_story = ustr ''a traveller'',
       custom_pre = [], custom_body = [], custom_post = [] \<rparr>"

definition demo_engine :: GameEngine where
  "demo_engine = new_engine new_manager new_manager new_manager demo_config"

definition demo_opened :: GameEngine where
  "demo_opened =
     demo_engine\<lparr> current_description := ustr ''You wake up.'',
                  history_descriptions := [ustr ''You wake up.''],
                  history_simple_summaries := [JStr (ustr ''woke'')],
                  l_p_token := 20, l_c_token := 10,
                  token_consumes := [30] \<rparr>"

definition large_summary :: ustring where
  "large_summary = replicate 320 97"

subsection \<open>Properties of the save files\<close>

text \<open>
  A timestamp as \<open>strftime("%Y%m%d_%H%M%S")\<close> writes it: eight ASCII digits, an
  underscore, six ASCII digits.
\<close>

definition ascii_digit :: "nat \<Rightarrow> bool" where
  "ascii_digit c = (48 \<le> c \<and> c \<le> 57)"

definition is_timestamp :: "ustring \<Rightarrow> bool" where
  "is_timestamp ts =
     (length ts = 15 \<and> list_all ascii_digit (take 8 ts) \<and> ts ! 8 = 95 \<and>
      list_all ascii_digit (drop 9 ts))"

text \<open>The records autosave writes under the label \<open>autosave\<close>, and their timestamp.\<close>

definition autosave_record :: "ustring \<Rightarrow> bool" where
  "autosave_record f =
     (length f = 32 \<and> take 9 f = ustr ''autosave_'' \<and> is_timestamp (take 15 (drop 9 f)) \<and>
      drop 24 f = ustr ''.json.gz'')"

definition embedded_timestamp :: "ustring \<Rightarrow> ustring" where
  "embedded_timestamp f = take 15 (drop 9 f)"

section \<open>The prompt composer: protected fragments and overrides\<close>

lemma ustr_simps: "ustr [] = []" "ustr (c # cs) = of_char c # ustr cs"
  by (simp_all add: ustr_def)







lemma section_inv_other:
  "sections m' sec = sections m sec \<Longrightarrow> section_orders m' sec = section_orders m sec \<Longrightarrow>
   section_inv m sec \<Longrightarrow> section_inv m' sec"
  by (simp add: section_inv_def)




















lemma length_str_join:
  "length (str_join sep xs) = sum_list (map length xs) + (length xs - 1) * length sep"
  by (induction sep xs rule: str_join.induct) auto

lemma count_str_join:
  "count_list (str_join [c] xs) c = sum_list (map (\<lambda>x. count_list x c) xs) + (length xs - 1)"
  by (induction "[c]" xs rule: str_join.induct) auto

lemma extra_part_upd_same:
  "extra_part (Some (d(sec \<mapsto> Some v))) sec = [v]"
  "extra_part (Some (d(sec := None))) sec = []"
  by (simp_all add: extra_part_def)

lemma extra_part_upd_other:
  "a \<noteq> sec \<Longrightarrow> extra_part (Some (d(sec := v))) a = extra_part (Some d) a"
  by (simp add: extra_part_def)

lemma parts_override_absent:
  "sec \<notin> set secs \<Longrightarrow>
   full_prompt_parts m (Some (d(sec := v))) secs = full_prompt_parts m (Some d) secs"
  by (induction secs) (auto simp: extra_part_upd_other Let_def)

lemma override_gap_here:
  "sec \<notin> set secs \<Longrightarrow> override_gap m d sec c (sec # secs)"
  by (simp add: override_gap_def parts_override_absent extra_part_upd_same Let_def)

lemma override_gap_later:
  "a \<noteq> sec \<Longrightarrow> override_gap m d sec c secs \<Longrightarrow> override_gap m d sec c (a # secs)"
  by (simp add: override_gap_def extra_part_upd_other Let_def)

lemma parts_override_empty:
  "distinct secs \<Longrightarrow> sec \<in> set secs \<Longrightarrow> override_gap m d sec c secs"
proof (induction secs)
  case Nil
  then show ?case by simp
next
  case (Cons a secs)
  then show ?case
    by (cases "a = sec") (auto intro: override_gap_here override_gap_later)
qed

lemma distinct_all_sections: "distinct all_sections"
  by (simp add: all_sections_def)

lemma set_all_sections: "sec \<in> set all_sections"
  by (cases sec) (simp_all add: all_sections_def)

lemma newline_ustr: "ustr ''\<newline>'' = [10]"
  by (simp add: ustr_def)

text \<open>
  Claim C10. An override equal to the empty string is appended as a segment of its own:
  for a section that renders no fragment, whenever some other segment of the prompt is
  non-empty, the prompt with the empty override differs from the prompt with no override
  for that section; it is one character longer and holds one more newline.
\<close>

theorem empty_override_adds_newline:
  assumes "get_section_fragments m sec = []"
    and "\<exists>p \<in> set (full_prompt_parts m (Some (d(sec := None))) all_sections). p \<noteq> []"
  shows "get_full_prompt m (Some (d(sec \<mapsto> Some []))) \<noteq> get_full_prompt m (Some (d(sec := None)))
       \<and> length (get_full_prompt m (Some (d(sec \<mapsto> Some []))))
           = length (get_full_prompt m (Some (d(sec := None)))) + 1
       \<and> count_list (get_full_prompt m (Some (d(sec \<mapsto> Some [])))) 10
           = count_list (get_full_prompt m (Some (d(sec := None)))) 10 + 1"
proof -
  let ?w = "full_prompt_parts m (Some (d(sec \<mapsto> Some []))) all_sections"
  let ?n = "full_prompt_parts m (Some (d(sec := None))) all_sections"
  from assms(2) have ne: "?n \<noteq> []" by auto
  have p: "length ?w = Suc (length ?n)" "sum_list (map length ?w) = sum_list (map length ?n)"
    "sum_list (map (\<lambda>x. count_list x 10) ?w) = sum_list (map (\<lambda>x. count_list x 10) ?n)"
    using parts_override_empty[OF distinct_all_sections set_all_sections, where m=m and d=d and sec=sec and c=10]
    by (simp_all add: override_gap_def)
  have l: "length (get_full_prompt m (Some (d(sec \<mapsto> Some []))))
           = length (get_full_prompt m (Some (d(sec := None)))) + 1"
    using ne p by (cases ?n) (simp_all add: get_full_prompt_def length_str_join newline_ustr)
  have c: "count_list (get_full_prompt m (Some (d(sec \<mapsto> Some [])))) 10
           = count_list (get_full_prompt m (Some (d(sec := None)))) 10 + 1"
    using ne p by (cases ?n) (simp_all add: get_full_prompt_def count_str_join newline_ustr)
  from l have "get_full_prompt m (Some (d(sec \<mapsto> Some []))) \<noteq> get_full_prompt m (Some (d(sec := None)))"
    by auto
  with l c show ?thesis by simp
qed



text \<open>
  Witness for C10: one protected fragment \<open>rules\<close> in the first section, an empty
  override for the fragment-less user-input section.
\<close>

theorem empty_override_adds_newline_witness:
  "get_section_fragments (load_init_sections new_manager [(PRE_PROMPT, ustr ''rules'')]) USER_INPUT = []
   \<and> (\<exists>p \<in> set (full_prompt_parts (load_init_sections new_manager [(PRE_PROMPT, ustr ''rules'')])
                  (Some (Map.empty(USER_INPUT := None))) all_sections). p \<noteq> [])
   \<and> get_full_prompt (load_init_sections new_manager [(PRE_PROMPT, ustr ''rules'')])
        (Some (Map.empty(USER_INPUT \<mapsto> Some []))) = ustr ''rules\<newline>''
   \<and> get_full_prompt (load_init_sections new_manager [(PRE_PROMPT, ustr ''rules'')])
        (Some (Map.empty(USER_INPUT := None))) = ustr ''rules''
   \<and> get_full_prompt (load_init_sections new_manager [(PRE_PROMPT, ustr ''rules'')])
        (Some (Map.empty(USER_INPUT \<mapsto> Some [])))
     \<noteq> get_full_prompt (load_init_sections new_manager [(PRE_PROMPT, ustr ''rules'')])
        (Some (Map.empty(USER_INPUT := None)))"
proof -
  let ?m = "load_init_sections new_manager [(PRE_PROMPT, ustr ''rules'')]"
  have a: "get_section_fragments ?m USER_INPUT = []"
    by (simp add: new_manager_def get_section_fragments_def List.map_filter_simps)
  have p: "full_prompt_parts ?m (Some (Map.empty(USER_INPUT := None))) all_sections = [ustr ''rules'']"
    by (simp add: new_manager_def get_section_content_def all_sections_def extra_part_def
        List.map_filter_simps system_id_def ustr_simps)
  then have b: "\<exists>p \<in> set (full_prompt_parts ?m (Some (Map.empty(USER_INPUT := None))) all_sections). p \<noteq> []"
    by (simp add: ustr_simps)
  have w: "get_full_prompt ?m (Some (Map.empty(USER_INPUT \<mapsto> Some []))) = ustr ''rules\<newline>''"
    by (simp add: get_full_prompt_def new_manager_def get_section_content_def all_sections_def
        extra_part_def List.map_filter_simps system_id_def ustr_simps)
  have n: "get_full_prompt ?m (Some (Map.empty(USER_INPUT := None))) = ustr ''rules''"
    by (simp add: get_full_prompt_def new_manager_def get_section_content_def all_sections_def
        extra_part_def List.map_filter_simps system_id_def ustr_simps)
  from empty_override_adds_newline[OF a b] a b w n show ?thesis by simp
qed
end
